theory Spec2Isabelle
  imports Complex_Main
begin

section \<open>Presence detection (\<open>_old/proximity.py\<close>)\<close>

text \<open>
  Python's unbounded integers are \<open>int\<close>. A Python \<open>float\<close> is a real number. In the
  easing and step arithmetic of \<open>_fade_worker\<close> every operation rounds its result to a
  double (\<open>round_double\<close> below), because there the rounding decides the value that is
  written. Wall-clock instants (\<open>time.time()\<close>), durations, lux values and the
  arithmetic of \<open>fade_to\<close> (whose \<open>pow\<close> is the C library's) are exact reals.
\<close>

record ProximityReading =
  distance_mm :: int
  zones_in_range :: int
  valid :: bool

record DetectionConfig =
  threshold_mm :: int
  detection_zones :: int
  consecutive_required :: int
  no_presence_required :: int

record DetectionState =
  human_present :: bool
  consecutive_detections :: int
  consecutive_non_detections :: int
  last_detection_time :: real
  detection_history :: "bool list"

text \<open>
  The detector object: its \<open>state\<close> and the two private attributes
  \<open>_last_valid_distance\<close> and \<open>_detection_start_time\<close> (both \<open>None\<close> at first).
  The configuration is never assigned after construction and is passed alongside.
\<close>

record ProximityDetector =
  state :: DetectionState
  last_valid_distance :: "int option"
  detection_start_time :: "real option"

definition default_detection_config :: DetectionConfig where
  "default_detection_config =
     \<lparr>threshold_mm = 400, detection_zones = 6,
      consecutive_required = 3, no_presence_required = 10\<rparr>"

definition initial_state :: DetectionState where
  "initial_state =
     \<lparr>human_present = False, consecutive_detections = 0,
      consecutive_non_detections = 0, last_detection_time = 0,
      detection_history = []\<rparr>"

definition initial_detector :: ProximityDetector where
  "initial_detector =
     \<lparr>state = initial_state, last_valid_distance = None, detection_start_time = None\<rparr>"

text \<open>\<open>DetectionState.add_detection\<close>: append, then drop the oldest entry beyond 20.\<close>

definition add_detection :: "DetectionState \<Rightarrow> bool \<Rightarrow> DetectionState" where
  "add_detection s detected =
     (let h = detection_history s @ [detected]
      in s\<lparr>detection_history := (if length h > 20 then tl h else h)\<rparr>)"

definition validate_movement ::
  "DetectionConfig \<Rightarrow> ProximityDetector \<Rightarrow> ProximityReading \<Rightarrow> bool" where
  "validate_movement cfg d reading =
     (case last_valid_distance d of
        None \<Rightarrow> True
      | Some prev \<Rightarrow>
          (let distance_change = \<bar>distance_mm reading - prev\<bar>;
               max_realistic_change = 300
           in if distance_change > max_realistic_change then False
              else let min_zones_for_validation = max 1 (detection_zones cfg - 1)
                   in if distance_mm reading \<le> threshold_mm cfg
                         \<and> zones_in_range reading < min_zones_for_validation
                      then False
                      else True))"

definition is_detection_criteria_met ::
  "DetectionConfig \<Rightarrow> ProximityDetector \<Rightarrow> ProximityReading \<Rightarrow> bool" where
  "is_detection_criteria_met cfg d reading =
     (let distance_ok = distance_mm reading \<le> threshold_mm cfg;
          zones_ok = zones_in_range reading \<ge> detection_zones cfg;
          movement_ok = validate_movement cfg d reading
      in distance_ok \<and> zones_ok \<and> movement_ok)"

definition should_trigger_detection :: "DetectionConfig \<Rightarrow> ProximityDetector \<Rightarrow> bool" where
  "should_trigger_detection cfg d =
     (consecutive_detections (state d) \<ge> consecutive_required cfg)"

text \<open>\<open>now\<close> is the value \<open>time.time()\<close> returns inside the call.\<close>

definition should_trigger_non_detection ::
  "DetectionConfig \<Rightarrow> real \<Rightarrow> ProximityDetector \<Rightarrow> bool" where
  "should_trigger_non_detection cfg now d =
     (if consecutive_non_detections (state d) < no_presence_required cfg then False
      else case detection_start_time d of
             None \<Rightarrow> True
           | Some t0 \<Rightarrow> (let min_detection_duration = 2;
                             detection_duration = now - t0
                         in detection_duration \<ge> min_detection_duration))"

definition handle_invalid_reading ::
  "DetectionConfig \<Rightarrow> ProximityDetector \<Rightarrow> ProximityDetector" where
  "handle_invalid_reading cfg d =
     (let s1 = (state d)\<lparr>consecutive_detections := 0,
                 consecutive_non_detections := consecutive_non_detections (state d) + 1\<rparr>;
          s2 = (if human_present s1
                   \<and> consecutive_non_detections s1 \<ge> no_presence_required cfg * 2
                then s1\<lparr>human_present := False\<rparr> else s1)
      in d\<lparr>state := s2\<rparr>)"

text \<open>
  \<open>process_reading\<close> returns the updated detector; the value the method returns is
  \<open>human_present\<close> of the updated state. A call reads the clock at most twice (the
  start of a detection run, then the instant presence is raised); both reads are the one
  instant \<open>now\<close>, and the second only feeds \<open>last_detection_time\<close>, which no decision
  reads.
\<close>

definition process_reading ::
  "DetectionConfig \<Rightarrow> real \<Rightarrow> ProximityDetector \<Rightarrow> ProximityReading option
     \<Rightarrow> ProximityDetector" where
  "process_reading cfg now d reading_opt =
     (case reading_opt of
        None \<Rightarrow> handle_invalid_reading cfg d
      | Some reading \<Rightarrow>
          if \<not> valid reading then handle_invalid_reading cfg d
          else
            let detected = is_detection_criteria_met cfg d reading;
                s1 = add_detection (state d) detected;
                d1 = (if detected
                      then d\<lparr>state := s1\<lparr>consecutive_detections :=
                                           consecutive_detections s1 + 1,
                                         consecutive_non_detections := 0\<rparr>,
                             detection_start_time :=
                               (if \<not> human_present s1 then Some now
                                else detection_start_time d)\<rparr>
                      else d\<lparr>state := s1\<lparr>consecutive_detections := 0,
                                         consecutive_non_detections :=
                                           consecutive_non_detections s1 + 1\<rparr>\<rparr>);
                d2 = (if \<not> human_present (state d1) \<and> should_trigger_detection cfg d1
                      then d1\<lparr>state := (state d1)\<lparr>human_present := True,
                                                     last_detection_time := now\<rparr>\<rparr>
                      else if human_present (state d1)
                              \<and> should_trigger_non_detection cfg now d1
                      then d1\<lparr>state := (state d1)\<lparr>human_present := False\<rparr>\<rparr>
                      else d1)
            in d2\<lparr>last_valid_distance := Some (distance_mm reading)\<rparr>)"

text \<open>
  A run of the detector: each input is the clock value of the call and the reading
  (absent readings are \<open>None\<close>), processed left to right.
\<close>

fun run_detector ::
  "DetectionConfig \<Rightarrow> ProximityDetector \<Rightarrow> (real \<times> ProximityReading option) list
     \<Rightarrow> ProximityDetector" where
  "run_detector cfg d [] = d"
| "run_detector cfg d ((now, r) # rest) = run_detector cfg (process_reading cfg now d r) rest"

definition mk_reading :: "int \<Rightarrow> int \<Rightarrow> ProximityReading" where
  "mk_reading mm zones = \<lparr>distance_mm = mm, zones_in_range = zones, valid = True\<rparr>"

section \<open>Python number conversions\<close>

text \<open>\<open>int(x)\<close> on a float truncates toward zero.\<close>

definition py_int :: "real \<Rightarrow> int" where
  "py_int x = (if 0 \<le> x then \<lfloor>x\<rfloor> else \<lceil>x\<rceil>)"

text \<open>\<open>round(x)\<close> on a float rounds to the nearest integer, a tie going to the even one.\<close>

definition py_round :: "real \<Rightarrow> int" where
  "py_round x =
     (let f = \<lfloor>x\<rfloor>; r = x - of_int f
      in if r < 1 / 2 then f
         else if 1 / 2 < r then f + 1
         else if even f then f else f + 1)"

text \<open>
  The result of one floating-point operation: the exact result rounded to the nearest
  double, that is to 53 significant bits, a tie going to the even significand. The
  exponent is not bounded, so there is no overflow and there are no subnormal numbers.
\<close>

definition round_double :: "real \<Rightarrow> real" where
  "round_double x =
     (if x = 0 then 0
      else let e = \<lfloor>log 2 \<bar>x\<bar>\<rfloor>;
               ulp = 2 powr (of_int e - 52)
           in of_int (py_round (x / ulp)) * ulp)"

datatype error = ZeroDivisionError

section \<open>Display configuration\<close>

text \<open>
  The display options. \<open>_old/display.py\<close> reads them from its \<open>DisplayConfig\<close>,
  \<open>proximity_display_control.py\<close> from the module-level \<open>config\<close> object; the option
  names are the same in both.
\<close>

record DisplayConfig =
  adaptive_brightness_enabled :: bool
  min_brightness :: int
  max_brightness :: int
  light_threshold_low :: real
  light_threshold_high :: real
  fade_steps :: int
  fade_easing :: string

section \<open>Adaptive brightness (\<open>proximity_display_control.py\<close>)\<close>

text \<open>
  \<open>LightSensorController.calculate_adaptive_brightness(lux, max_brightness)\<close>; the
  upper bound is the argument, not the configured \<open>max_brightness\<close>.
\<close>

definition calculate_adaptive_brightness :: "DisplayConfig \<Rightarrow> real \<Rightarrow> int \<Rightarrow> int" where
  "calculate_adaptive_brightness cfg lux max_b =
     (if \<not> adaptive_brightness_enabled cfg then max_b
      else
        let low_threshold = light_threshold_low cfg;
            high_threshold = light_threshold_high cfg;
            brightness =
              (if lux \<le> low_threshold then min_brightness cfg
               else if lux \<ge> high_threshold then max_b
               else let ratio = (lux - low_threshold) / (high_threshold - low_threshold)
                    in py_int (of_int (min_brightness cfg)
                               + ratio * of_int (max_b - min_brightness cfg)))
        in max (min_brightness cfg) (min brightness max_b))"

section \<open>Fade engine of \<open>_old/display.py\<close>\<close>

record DisplayState =
  current_brightness :: int
  target_brightness :: int
  is_fading :: bool
  is_awake :: bool

text \<open>
  The controller with the brightness file it writes: \<open>brightness_path_found\<close> says
  that \<open>_brightness_path\<close> is set, \<open>channel\<close> lists the values written to the file so
  far, oldest first.
\<close>

record DisplayController =
  display_state :: DisplayState
  brightness_path_found :: bool
  channel :: "int list"

text \<open>
  \<open>_write_brightness\<close>: \<open>io_ok\<close> says whether the file write goes through; a write
  that raises leaves the file as it was and returns \<open>False\<close>.
\<close>

definition write_brightness ::
  "DisplayConfig \<Rightarrow> bool \<Rightarrow> DisplayController \<Rightarrow> int \<Rightarrow> bool \<times> DisplayController" where
  "write_brightness cfg io_ok c brightness =
     (if \<not> brightness_path_found c then (False, c)
      else let b = max (min_brightness cfg) (min (max_brightness cfg) brightness)
           in if io_ok then (True, c\<lparr>channel := channel c @ [b]\<rparr>)
              else (False, c))"

text \<open>
  \<open>_apply_easing\<close> in double arithmetic, each product, sum and difference rounded in
  the order Python evaluates them: \<open>(p * p) * (3.0 - 2.0 * p)\<close> and
  \<open>((p * p) * p) * (p * (p * 6 - 15) + 10)\<close>.
\<close>

definition apply_easing :: "DisplayConfig \<Rightarrow> real \<Rightarrow> real" where
  "apply_easing cfg progress =
     (if fade_easing cfg = ''linear'' then progress
      else if fade_easing cfg = ''ease_in_out''
        then round_double (round_double (progress * progress)
                           * round_double (3 - round_double (2 * progress)))
      else if fade_easing cfg = ''quintic''
        then round_double
               (round_double (round_double (progress * progress) * progress)
                * round_double
                    (round_double (progress * round_double (round_double (progress * 6) - 15))
                     + 10))
      else progress)"

text \<open>
  The value step \<open>step\<close> of the loop in \<open>_fade_worker\<close> asks to write:
  \<open>step / steps\<close> is the rounded quotient of the two integers, the integers
  \<open>start_brightness\<close> and \<open>brightness_diff\<close> are converted to doubles, and the
  product and the sum are rounded before \<open>int\<close> truncates.
\<close>

definition new_brightness :: "DisplayConfig \<Rightarrow> int \<Rightarrow> int \<Rightarrow> int \<Rightarrow> nat \<Rightarrow> int" where
  "new_brightness cfg start_brightness target steps step =
     (if int step = steps then target
      else let brightness_diff = target - start_brightness;
               progress = round_double (of_nat step / of_int steps);
               eased_progress = apply_easing cfg progress
           in py_int (round_double
                        (round_double (of_int start_brightness)
                         + round_double (round_double (of_int brightness_diff)
                                         * eased_progress))))"

text \<open>One pass of the loop body; \<open>io_ok step\<close> is the fate of this step's write.\<close>

definition fade_step ::
  "DisplayConfig \<Rightarrow> (nat \<Rightarrow> bool) \<Rightarrow> int \<Rightarrow> int \<Rightarrow> int \<Rightarrow> nat
     \<Rightarrow> DisplayController \<Rightarrow> DisplayController" where
  "fade_step cfg io_ok start_brightness target steps step c =
     (let nb = new_brightness cfg start_brightness target steps step;
          (written, c1) = write_brightness cfg (io_ok step) c nb
      in if written
         then c1\<lparr>display_state := (display_state c1)\<lparr>current_brightness := nb\<rparr>\<rparr>
         else c1)"

text \<open>
  \<open>_fade_worker\<close>, run to its end (no cancellation). \<open>duration / steps\<close> raises when
  \<open>fade_steps\<close> is 0; \<open>range(steps + 1)\<close> is empty when \<open>steps\<close> is negative.
\<close>

definition fade_worker ::
  "DisplayConfig \<Rightarrow> (nat \<Rightarrow> bool) \<Rightarrow> DisplayController \<Rightarrow> int
     \<Rightarrow> error + DisplayController" where
  "fade_worker cfg io_ok c target =
     (let start_brightness = current_brightness (display_state c);
          brightness_diff = target - start_brightness
      in if brightness_diff = 0 then Inr c
         else let steps = fade_steps cfg
              in if steps = 0 then Inl ZeroDivisionError
                 else Inr (fold (fade_step cfg io_ok start_brightness target steps)
                                [0 ..< nat (steps + 1)] c))"

section \<open>Adaptive brightness of \<open>sensors/display_manager.py\<close>\<close>



section \<open>Fade engine of \<open>proximity_display_control.py\<close>\<close>

text \<open>
  The second \<open>DisplayController\<close> class: \<open>max_brightness\<close> is read from the hardware,
  \<open>current_brightness\<close> is tracked, and the file is again the list of values written.
\<close>

record DisplayController_pdc =
  max_brightness_pdc :: int
  current_brightness_pdc :: int
  channel_pdc :: "int list"

definition set_brightness ::
  "bool \<Rightarrow> DisplayController_pdc \<Rightarrow> int \<Rightarrow> bool \<times> DisplayController_pdc" where
  "set_brightness io_ok c v =
     (let v' = max 0 (min v (max_brightness_pdc c))
      in if io_ok
         then (True, c\<lparr>channel_pdc := channel_pdc c @ [v'], current_brightness_pdc := v'\<rparr>)
         else (False, c))"

definition eased :: "DisplayConfig \<Rightarrow> real \<Rightarrow> real" where
  "eased cfg t =
     (if fade_easing cfg = ''quintic''
        then (if t < 1 / 2 then 16 * t * t * t * t * t else 1 - (- 2 * t + 2) ^ 5 / 2)
      else if fade_easing cfg = ''ease_in_out''
        then (if t < 1 / 2 then 4 * t * t * t else 1 - (- 2 * t + 2) ^ 3 / 2)
      else if fade_easing cfg = ''linear'' then t
      else (if t < 1 / 2 then 4 * t * t * t else 1 - (- 2 * t + 2) ^ 3 / 2))"

text \<open>The brightness step \<open>i\<close> of the loop in \<open>fade_to\<close> computes.\<close>

definition fade_brightness :: "DisplayConfig \<Rightarrow> int \<Rightarrow> int \<Rightarrow> int \<Rightarrow> nat \<Rightarrow> int" where
  "fade_brightness cfg start target steps i =
     (let t = of_nat i / of_int steps;
          eased_t = eased cfg t;
          brightness_float = of_int start + of_int (target - start) * eased_t
      in py_round brightness_float)"

text \<open>The loop body: the state is \<open>last_brightness\<close> and the controller.\<close>

definition fade_to_step ::
  "DisplayConfig \<Rightarrow> (nat \<Rightarrow> bool) \<Rightarrow> int \<Rightarrow> int \<Rightarrow> int \<Rightarrow> nat
     \<Rightarrow> int \<times> DisplayController_pdc \<Rightarrow> int \<times> DisplayController_pdc" where
  "fade_to_step cfg io_ok start target steps i lc =
     (let last_brightness = fst lc; c = snd lc;
          brightness = fade_brightness cfg start target steps i
      in if brightness \<noteq> last_brightness
         then (brightness, snd (set_brightness (io_ok i) c brightness))
         else (last_brightness, c))"

definition fade_to_loop ::
  "DisplayConfig \<Rightarrow> (nat \<Rightarrow> bool) \<Rightarrow> int \<Rightarrow> int \<Rightarrow> int
     \<Rightarrow> DisplayController_pdc \<Rightarrow> DisplayController_pdc" where
  "fade_to_loop cfg io_ok start target steps c =
     snd (fold (fade_to_step cfg io_ok start target steps) [0 ..< nat (steps + 1)] (start, c))"

text \<open>
  \<open>fade_to\<close>, run to its end (no cancellation). Both \<open>duration / steps\<close> raise when
  the divisor is 0: the first for a step count of 0, the second when the duration is so
  short that the recomputed count \<open>int(duration / min_step_delay)\<close> is 0.
\<close>

definition fade_to ::
  "DisplayConfig \<Rightarrow> (nat \<Rightarrow> bool) \<Rightarrow> DisplayController_pdc \<Rightarrow> int \<Rightarrow> real \<Rightarrow> int option
     \<Rightarrow> error + DisplayController_pdc" where
  "fade_to cfg io_ok c target0 duration steps_opt =
     (let target = max 0 (min target0 (max_brightness_pdc c));
          start = current_brightness_pdc c
      in if start = target then Inr c
         else
           let steps = (case steps_opt of None \<Rightarrow> fade_steps cfg | Some n \<Rightarrow> n)
           in if steps = 0 then Inl ZeroDivisionError
              else
                let step_delay = duration / of_int steps;
                    min_step_delay = (1000 / 60) / 1000 / 10
                in if step_delay < min_step_delay
                   then let steps' = py_int (duration / min_step_delay)
                        in if steps' = 0 then Inl ZeroDivisionError
                           else Inr (fade_to_loop cfg io_ok start target steps' c)
                   else Inr (fade_to_loop cfg io_ok start target steps c))"

section \<open>Scenarios\<close>

text \<open>
  The approach scenario of \<open>_old/demo.py\<close> (\<open>test_readings\<close>, first six entries),
  read at the clock values \<open>t1\<close> to \<open>t6\<close>.
\<close>

definition demo_readings ::
  "real \<Rightarrow> real \<Rightarrow> real \<Rightarrow> real \<Rightarrow> real \<Rightarrow> real \<Rightarrow> (real \<times> ProximityReading option) list" where
  "demo_readings t1 t2 t3 t4 t5 t6 =
     [(t1, Some (mk_reading 2000 0)), (t2, Some (mk_reading 1500 1)),
      (t3, Some (mk_reading 800 3)), (t4, Some (mk_reading 400 6)),
      (t5, Some (mk_reading 350 7)), (t6, Some (mk_reading 300 8))]"

text \<open>
  Three qualifying readings one second apart, then nine far readings that each jump
  by 1000 mm from the one before.
\<close>

definition jump_run :: "(real \<times> ProximityReading option) list" where
  "jump_run =
     [(0, Some (mk_reading 300 8)), (1, Some (mk_reading 300 8)),
      (2, Some (mk_reading 300 8)), (3, Some (mk_reading 2000 0)),
      (4, Some (mk_reading 1000 0)), (5, Some (mk_reading 2000 0)),
      (6, Some (mk_reading 1000 0)), (7, Some (mk_reading 2000 0)),
      (8, Some (mk_reading 1000 0)), (9, Some (mk_reading 2000 0)),
      (10, Some (mk_reading 1000 0)), (11, Some (mk_reading 2000 0))]"


definition detector_present :: ProximityDetector where
  "detector_present =
     \<lparr>state = initial_state\<lparr>human_present := True, consecutive_non_detections := 9\<rparr>,
      last_valid_distance = Some 2000, detection_start_time = Some 0\<rparr>"

text \<open>
  The display options of the mapping scenario: brightness 0 to 255 between 10 and
  500 lux.
\<close>

definition scenario_display_config :: DisplayConfig where
  "scenario_display_config =
     \<lparr>adaptive_brightness_enabled = True, min_brightness = 0, max_brightness = 255,
      light_threshold_low = 10, light_threshold_high = 500,
      fade_steps = 120, fade_easing = ''ease_in_out''\<rparr>"

text \<open>
  The invariant of the loop in \<open>fade_to\<close> when every write goes through, for the
  proofs below: the hardware maximum stays \<open>M\<close>, and either nothing has been written
  yet (\<open>last_brightness\<close> and the tracked brightness are both still the start value) or
  the tracked brightness is the clamped \<open>last_brightness\<close> and is the newest value in
  the file.
\<close>

definition fade_to_inv :: "int \<Rightarrow> int \<Rightarrow> int \<times> DisplayController_pdc \<Rightarrow> bool" where
  "fade_to_inv M start lc =
     (max_brightness_pdc (snd lc) = M
      \<and> (fst lc = start \<and> current_brightness_pdc (snd lc) = start
         \<or> current_brightness_pdc (snd lc) = max 0 (min (fst lc) M)
           \<and> channel_pdc (snd lc) \<noteq> []
           \<and> last (channel_pdc (snd lc)) = current_brightness_pdc (snd lc)))"

text \<open>
  Fade scenarios: linear easing in two steps; a configuration whose \<open>min_brightness\<close>
  is 20; a freshly constructed controller of each module with the display dark.
\<close>

definition two_step_config :: DisplayConfig where
  "two_step_config =
     \<lparr>adaptive_brightness_enabled = True, min_brightness = 0, max_brightness = 255,
      light_threshold_low = 10, light_threshold_high = 500,
      fade_steps = 2, fade_easing = ''linear''\<rparr>"

definition dim_floor_config :: DisplayConfig where
  "dim_floor_config = two_step_config\<lparr>min_brightness := 20\<rparr>"

definition fresh_controller :: DisplayController where
  "fresh_controller =
     \<lparr>display_state = \<lparr>current_brightness = 0, target_brightness = 0,
                        is_fading = False, is_awake = False\<rparr>,
      brightness_path_found = True, channel = []\<rparr>"

definition fresh_controller_pdc :: DisplayController_pdc where
  "fresh_controller_pdc =
     \<lparr>max_brightness_pdc = 255, current_brightness_pdc = 0, channel_pdc = []\<rparr>"

text \<open>Every write goes through.\<close>

definition writes_succeed :: "nat \<Rightarrow> bool" where
  "writes_succeed step = True"



section \<open>Properties of the presence detector\<close>

lemmas detector_defs =
  process_reading_def handle_invalid_reading_def should_trigger_detection_def
  should_trigger_non_detection_def is_detection_criteria_met_def validate_movement_def
  add_detection_def

lemmas scenario_defs =
  default_detection_config_def initial_detector_def initial_state_def mk_reading_def



lemma step_counters:
  "consecutive_detections (state (process_reading cfg now d r)) = 0
   \<or> consecutive_non_detections (state (process_reading cfg now d r)) = 0"
  by (simp add: detector_defs Let_def split: option.splits)

lemma run_counters:
  "consecutive_detections (state d) = 0 \<or> consecutive_non_detections (state d) = 0 \<Longrightarrow>
   consecutive_detections (state (run_detector cfg d ins)) = 0
   \<or> consecutive_non_detections (state (run_detector cfg d ins)) = 0"
proof (induction ins arbitrary: d)
  case Nil
  then show ?case by simp
next
  case (Cons a ins)
  obtain now r where a: "a = (now, r)" by (cases a)
  show ?case unfolding a run_detector.simps
    by (rule Cons.IH) (rule step_counters)
qed

text \<open>
  C2. In every state reached from the initial detector by any finite sequence of calls
  (valid, invalid or absent readings, at any clock values), \<open>consecutive_detections\<close>
  and \<open>consecutive_non_detections\<close> are not both nonzero.
\<close>

theorem counters_never_both_nonzero:
  "consecutive_detections (state (run_detector cfg initial_detector ins)) = 0
   \<or> consecutive_non_detections (state (run_detector cfg initial_detector ins)) = 0"
  by (rule run_counters) (simp add: initial_detector_def initial_state_def)

text \<open>
  C3. The scenario on the code: with \<open>threshold_mm = 400\<close>, \<open>detection_zones = 6\<close>,
  \<open>consecutive_required = 3\<close>, after the six readings 2000/0, 1500/1, 800/3, 400/6,
  350/7, 300/8 presence is still false and \<open>consecutive_detections\<close> is 2: the fourth
  reading is 400 mm away from the third and fails the movement check, so the run of
  qualifying readings starts at the fifth.
\<close>

theorem demo_scenario_not_present_after_six:
  "human_present (state (run_detector default_detection_config initial_detector
                           (demo_readings t1 t2 t3 t4 t5 t6))) = False
   \<and> consecutive_detections (state (run_detector default_detection_config initial_detector
                           (demo_readings t1 t2 t3 t4 t5 t6))) = 2
   \<and> validate_movement default_detection_config
        (run_detector default_detection_config initial_detector
           (take 3 (demo_readings t1 t2 t3 t4 t5 t6))) (mk_reading 400 6) = False"
  by (simp add: demo_readings_def detector_defs scenario_defs Let_def)

text \<open>
  C4, as stated, fails: after \<open>jump_run\<close> presence is true and the last distance is
  2000 mm; the valid reading 1000/0 at clock 12 jumps by 1000 mm and clears presence,
  being the tenth non-detection in a row.
\<close>

theorem jump_reading_clears_presence:
  "human_present (state (run_detector default_detection_config initial_detector jump_run))
   \<and> last_valid_distance (run_detector default_detection_config initial_detector jump_run)
       = Some 2000
   \<and> valid (mk_reading 1000 0)
   \<and> 300 < \<bar>distance_mm (mk_reading 1000 0) - 2000\<bar>
   \<and> \<not> human_present
       (state (process_reading default_detection_config 12
                 (run_detector default_detection_config initial_detector jump_run)
                 (Some (mk_reading 1000 0))))"
  by (simp add: jump_run_def detector_defs scenario_defs Let_def)

text \<open>
  C4, amended. A valid reading more than 300 mm away from the stored previous distance
  is counted as a non-detection: \<open>consecutive_detections\<close> becomes 0 and
  \<open>consecutive_non_detections\<close> grows by one. With \<open>consecutive_required\<close> at least 1
  it therefore never raises presence from false to true.
\<close>

theorem jump_reading_is_non_detection:
  assumes "valid r" and "last_valid_distance d = Some prev"
    and "300 < \<bar>distance_mm r - prev\<bar>"
  shows "consecutive_detections (state (process_reading cfg now d (Some r))) = 0
       \<and> consecutive_non_detections (state (process_reading cfg now d (Some r)))
           = consecutive_non_detections (state d) + 1
       \<and> (1 \<le> consecutive_required cfg \<longrightarrow>
            human_present (state (process_reading cfg now d (Some r))) \<longrightarrow>
            human_present (state d))"
  using assms
  by (auto simp add: detector_defs Let_def split: option.splits)

theorem jump_reading_is_non_detection_witness:
  "valid (mk_reading 300 8)
   \<and> last_valid_distance detector_present = Some 2000
   \<and> 300 < \<bar>distance_mm (mk_reading 300 8) - 2000\<bar>
   \<and> 1 \<le> consecutive_required default_detection_config
   \<and> consecutive_detections
       (state (process_reading default_detection_config 1 detector_present
                 (Some (mk_reading 300 8)))) = 0
   \<and> consecutive_non_detections
       (state (process_reading default_detection_config 1 detector_present
                 (Some (mk_reading 300 8)))) = 10
   \<and> human_present
       (state (process_reading default_detection_config 1 detector_present
                 (Some (mk_reading 300 8))))
   \<and> human_present (state detector_present)"
  using jump_reading_is_non_detection [of "mk_reading 300 8" detector_present 2000
                                          default_detection_config 1]
  by (simp add: detector_defs scenario_defs detector_present_def Let_def)

section \<open>Properties of the number conversions\<close>

lemma py_int_of_int: "py_int (of_int n) = n"
  by (simp add: py_int_def)




lemma py_round_of_int: "py_round (of_int n) = n"
  by (simp add: py_round_def)





section \<open>Properties of rounding to a double\<close>

lemma round_double_zero: "round_double 0 = 0"
  by (simp add: round_double_def)

text \<open>
  Evaluation: when \<open>x\<close> scaled by \<open>2 ^ n\<close> has 53 bits before the point, the double is
  the scaled value rounded to an integer and scaled back.
\<close>

lemma round_double_eval:
  assumes lo: "2 ^ 52 \<le> \<bar>x\<bar> * 2 ^ n" and hi: "\<bar>x\<bar> * 2 ^ n < 2 ^ 53"
  shows "round_double x = of_int (py_round (x * 2 ^ n)) / 2 ^ n"
proof -
  have nz: "x \<noteq> 0" using lo by auto
  have pos: "0 < \<bar>x\<bar>" using nz by simp
  have p2: "(2::real) powr (real n) = 2 ^ n" by (simp add: powr_realpow)
  have k0: "(2::real) powr (52 - real n) = 2 ^ 52 / 2 ^ n"
    by (simp add: powr_diff p2)
  have k1: "(2::real) powr (52 - real n + 1) = 2 ^ 53 / 2 ^ n"
    by (simp add: powr_add powr_diff p2)
  have "2 powr (52 - real n) \<le> \<bar>x\<bar>" unfolding k0 using lo by (simp add: divide_le_eq)
  moreover have "\<bar>x\<bar> < 2 powr (52 - real n + 1)"
    unfolding k1 using hi by (simp add: less_divide_eq)
  ultimately have "2 powr (of_int (52 - int n)) \<le> \<bar>x\<bar>
                   \<and> \<bar>x\<bar> < 2 powr (of_int (52 - int n) + 1)"
    by simp
  then have e: "\<lfloor>log 2 \<bar>x\<bar>\<rfloor> = 52 - int n"
    using floor_log_eq_powr_iff [of "\<bar>x\<bar>" 2 "52 - int n"] pos by simp
  have u: "(2::real) powr (of_int (52 - int n) - 52) = 1 / 2 ^ n"
    by (simp add: powr_minus p2 inverse_eq_divide)
  show ?thesis
    unfolding round_double_def Let_def e u using nz by simp
qed

text \<open>Integers below \<open>2 ^ 53\<close> in magnitude are doubles.\<close>

lemma round_double_of_int:
  assumes "\<bar>m\<bar> < 2 ^ 53"
  shows "round_double (of_int m) = of_int m"
proof (cases "m = 0")
  case True
  then show ?thesis by (simp add: round_double_zero)
next
  case False
  define x :: real where "x = \<bar>of_int m\<bar>"
  have x1: "1 \<le> x" using False by (simp add: x_def)
  have x2: "x < 2 ^ 53" using assms unfolding x_def
    by (metis of_int_abs of_int_less_numeral_power_cancel_iff)
  define e where "e = \<lfloor>log 2 x\<rfloor>"
  have b: "2 powr (of_int e) \<le> x \<and> x < 2 powr (of_int e + 1)"
    using floor_log_eq_powr_iff [of x 2 e] x1 by (simp add: e_def)
  have "log 2 x < 53" using x1 x2 by (simp add: log_less_iff)
  then have e52: "e \<le> 52" unfolding e_def by linarith
  define j where "j = nat (52 - e)"
  have je: "real j = 52 - of_int e" using e52 by (simp add: j_def)
  have pj: "(2::real) ^ j = 2 powr (52 - of_int e)"
    using powr_realpow [of 2 j] by (simp add: je)
  have "2 powr (of_int e) * 2 powr (52 - of_int e) \<le> x * 2 ^ j"
    unfolding pj using b by (simp add: mult_right_mono)
  then have lo: "2 ^ 52 \<le> x * 2 ^ j" by (simp add: powr_add [symmetric])
  have "x * 2 ^ j < 2 powr (of_int e + 1) * 2 powr (52 - of_int e)"
    unfolding pj using b by (simp add: mult_strict_right_mono)
  then have hi: "x * 2 ^ j < 2 ^ 53" by (simp add: powr_add [symmetric])
  have "round_double (of_int m) = of_int (py_round (of_int m * 2 ^ j)) / 2 ^ j"
    using lo hi unfolding x_def by (rule round_double_eval)
  moreover have "py_round (of_int m * 2 ^ j) = m * 2 ^ j"
    using py_round_of_int [of "m * 2 ^ j"] by simp
  ultimately show ?thesis by simp
qed






text \<open>The doubles the scenarios below meet.\<close>

lemma round_double_values:
  "round_double 1 = 1" "round_double 2 = 2" "round_double 3 = 3" "round_double 6 = 6"
  "round_double 10 = 10" "round_double (- 9) = - 9" "round_double (- 15) = - 15"
  "round_double 150 = 150" "round_double 255 = 255" "round_double 300 = 300"
  "round_double (1 / 2) = 1 / 2" "round_double (255 / 2) = 255 / 2"
  using round_double_of_int [of 1] round_double_of_int [of 2] round_double_of_int [of 3]
    round_double_of_int [of 6] round_double_of_int [of 10] round_double_of_int [of "- 9"]
    round_double_of_int [of "- 15"] round_double_of_int [of 150]
    round_double_of_int [of 255] round_double_of_int [of 300]
    round_double_eval [of "1 / 2" 53] round_double_eval [of "255 / 2" 46]
  by (simp_all add: py_round_def)


section \<open>Properties of the adaptive brightness mapping\<close>











text \<open>
  C9, as stated, fails: for lux 250 with bounds 0 and 255 and thresholds 10 and 500 the
  function returns 124, which is not within 1 of 130.
\<close>

theorem mapping_scenario_not_130:
  "calculate_adaptive_brightness scenario_display_config 250 255 = 124
   \<and> \<not> \<bar>calculate_adaptive_brightness scenario_display_config 250 255 - 130\<bar> \<le> 1"
  by (simp add: calculate_adaptive_brightness_def scenario_display_config_def
                py_int_def Let_def)

text \<open>
  C9, amended. For lux 250 with bounds 0 and 255 and thresholds 10 and 500 the function
  returns 124: the interpolation \<open>0 + (250 - 10) / (500 - 10) * (255 - 0)\<close> is
  \<open>6120 / 49\<close>, about 124.9, and \<open>int\<close> truncates it.
\<close>

theorem mapping_scenario_value:
  "calculate_adaptive_brightness scenario_display_config 250 255
     = py_int (0 + (250 - 10) / (500 - 10) * (255 - 0))
   \<and> py_int (0 + (250 - 10) / (500 - 10) * (255 - 0)) = 124
   \<and> (0 + (250 - 10) / (500 - 10) * (255 - 0) :: real) = 6120 / 49"
  by (simp add: calculate_adaptive_brightness_def scenario_display_config_def
                py_int_def Let_def)



section \<open>Properties of the easing functions\<close>





















section \<open>Properties of the fade engines\<close>

lemmas fade_defs =
  fade_worker_def fade_step_def write_brightness_def new_brightness_def apply_easing_def
  fade_to_def fade_to_loop_def fade_to_step_def set_brightness_def fade_brightness_def
  eased_def py_int_def py_round_def

lemmas fade_scenario_defs =
  two_step_config_def dim_floor_config_def fresh_controller_def fresh_controller_pdc_def

lemma upt3: "[0 ..< (3::nat)] = [0, 1, 2]"
  by (simp add: upt_rec)


lemma fade_step_path:
  "brightness_path_found (fade_step cfg io_ok s t n i c) = brightness_path_found c"
  by (simp add: fade_step_def write_brightness_def Let_def)

lemma fade_fold_path:
  "brightness_path_found (fold (fade_step cfg io_ok s t n) xs c) = brightness_path_found c"
  by (induction xs arbitrary: c) (simp_all add: fade_step_path)

lemma fade_step_final:
  assumes "brightness_path_found c" "io_ok (nat n)" "0 < n"
  shows "current_brightness (display_state (fade_step cfg io_ok s t n (nat n) c)) = t"
    and "channel (fade_step cfg io_ok s t n (nat n) c)
           = channel c @ [max (min_brightness cfg) (min (max_brightness cfg) t)]"
  using assms by (simp_all add: fade_step_def write_brightness_def new_brightness_def Let_def)

lemma upt_steps: "0 < n \<Longrightarrow> [0 ..< nat (n + 1)] = [0 ..< nat n] @ [nat n]"
  by (simp add: nat_add_distrib)

lemma fade_worker_reaches:
  assumes ok: "\<forall>k. io_ok k" and n: "0 < fade_steps cfg" and p: "brightness_path_found c"
  shows "\<exists>c'. fade_worker cfg io_ok c target = Inr c'
           \<and> current_brightness (display_state c') = target
           \<and> (current_brightness (display_state c) \<noteq> target \<longrightarrow>
                channel c' \<noteq> []
                \<and> last (channel c') = max (min_brightness cfg) (min (max_brightness cfg) target))"
proof (cases "current_brightness (display_state c) = target")
  case True
  then show ?thesis by (simp add: fade_worker_def)
next
  case False
  let ?f = "fade_step cfg io_ok (current_brightness (display_state c)) target (fade_steps cfg)"
  let ?c1 = "fold ?f [0 ..< nat (fade_steps cfg)] c"
  have w: "fade_worker cfg io_ok c target = Inr (?f (nat (fade_steps cfg)) ?c1)"
    using False n by (simp add: fade_worker_def Let_def upt_steps)
  have p1: "brightness_path_found ?c1" using p by (simp add: fade_fold_path)
  have okn: "io_ok (nat (fade_steps cfg))" using ok by simp
  show ?thesis
    unfolding w
    using p1 okn n
      fade_step_final [where c = ?c1 and io_ok = io_ok and n = "fade_steps cfg" and cfg = cfg
                         and t = target and s = "current_brightness (display_state c)"]
    by simp
qed

lemma fade_brightness_last:
  assumes n: "0 < n" shows "fade_brightness cfg s t n (nat n) = t"
proof -
  have e1: "(of_nat (nat n) :: real) / of_int n = 1" using n by simp
  have e2: "eased cfg 1 = 1" by (simp add: eased_def)
  have e3: "of_int s + of_int (t - s) * (1::real) = of_int t" by simp
  show ?thesis
    unfolding fade_brightness_def Let_def e1 e2 e3 by (rule py_round_of_int)
qed

lemma fade_to_step_inv:
  assumes "io_ok i" and "fade_to_inv M start lc"
  shows "fade_to_inv M start (fade_to_step cfg io_ok start target n i lc)"
proof (cases "fade_brightness cfg start target n i = fst lc")
  case True
  with assms(2) show ?thesis by (simp add: fade_to_step_def Let_def)
next
  case False
  with assms show ?thesis
    by (simp add: fade_to_step_def set_brightness_def fade_to_inv_def Let_def)
qed

lemma fade_to_fold_inv:
  assumes "\<forall>k. io_ok k"
  shows "fade_to_inv M start lc \<Longrightarrow>
         fade_to_inv M start (fold (fade_to_step cfg io_ok start target n) xs lc)"
proof (induction xs arbitrary: lc)
  case Nil
  then show ?case by simp
next
  case (Cons x xs)
  have "io_ok x" using assms by simp
  then have "fade_to_inv M start (fade_to_step cfg io_ok start target n x lc)"
    using Cons.prems by (rule fade_to_step_inv [where io_ok = io_ok and i = x])
  then show ?case by (simp add: Cons.IH)
qed

lemma fade_to_step_final:
  assumes "io_ok i" and "fade_to_inv M start lc"
    and "fade_brightness cfg start target n i = target"
    and "start \<noteq> target" and "0 \<le> target" and "target \<le> M"
  shows "current_brightness_pdc (snd (fade_to_step cfg io_ok start target n i lc)) = target
       \<and> channel_pdc (snd (fade_to_step cfg io_ok start target n i lc)) \<noteq> []
       \<and> last (channel_pdc (snd (fade_to_step cfg io_ok start target n i lc))) = target"
proof (cases "target = fst lc")
  case True
  with assms show ?thesis
    by (simp add: fade_to_step_def fade_to_inv_def Let_def)
next
  case False
  with assms show ?thesis
    by (simp add: fade_to_step_def set_brightness_def fade_to_inv_def Let_def)
qed

lemma fade_to_loop_reaches:
  assumes ok: "\<forall>k. io_ok k" and n: "0 < n"
    and ne: "current_brightness_pdc c \<noteq> target"
    and t: "0 \<le> target" "target \<le> max_brightness_pdc c"
  shows "current_brightness_pdc
           (fade_to_loop cfg io_ok (current_brightness_pdc c) target n c) = target
      \<and> channel_pdc (fade_to_loop cfg io_ok (current_brightness_pdc c) target n c) \<noteq> []
      \<and> last (channel_pdc
                (fade_to_loop cfg io_ok (current_brightness_pdc c) target n c)) = target"
proof -
  define s where "s = current_brightness_pdc c"
  define lc where "lc = fold (fade_to_step cfg io_ok s target n) [0 ..< nat n] (s, c)"
  have "fade_to_inv (max_brightness_pdc c) s (s, c)"
    by (simp add: fade_to_inv_def s_def)
  then have inv: "fade_to_inv (max_brightness_pdc c) s lc"
    unfolding lc_def using ok by (rule fade_to_fold_inv [rotated])
  have loop: "fade_to_loop cfg io_ok s target n c
                = snd (fade_to_step cfg io_ok s target n (nat n) lc)"
    using n by (simp add: fade_to_loop_def upt_steps lc_def)
  have okn: "io_ok (nat n)" using ok by simp
  have b: "fade_brightness cfg s target n (nat n) = target"
    using n by (rule fade_brightness_last)
  have ne': "s \<noteq> target" using ne by (simp add: s_def)
  show ?thesis
    unfolding s_def [symmetric] loop
    using okn inv b ne' t
    by (rule fade_to_step_final [where io_ok = io_ok and i = "nat n" and lc = lc and start = s
                                   and M = "max_brightness_pdc c"])
qed

lemma short_duration:
  fixes duration :: real
  assumes "0 \<le> duration"
  shows "0 \<le> py_int (duration / ((1000 / 60) / 1000 / 10))"
    and "py_int (duration / ((1000 / 60) / 1000 / 10)) = 0 \<Longrightarrow> duration * 600 < 1"
proof -
  have e: "duration / ((1000 / 60) / 1000 / 10) = duration * 600" by simp
  have nn: "0 \<le> duration * 600" using assms by simp
  show "0 \<le> py_int (duration / ((1000 / 60) / 1000 / 10))"
    unfolding e using nn by (simp add: py_int_def)
  assume "py_int (duration / ((1000 / 60) / 1000 / 10)) = 0"
  then have "\<lfloor>duration * 600\<rfloor> = 0" unfolding e using nn by (simp add: py_int_def)
  then show "duration * 600 < 1" by (simp add: floor_eq_iff)
qed

lemma fade_to_reaches:
  assumes ok: "\<forall>k. io_ok k"
    and n: "0 < (case steps_opt of None \<Rightarrow> fade_steps cfg | Some n \<Rightarrow> n)"
    and d: "0 \<le> duration"
    and t: "0 \<le> target" "target \<le> max_brightness_pdc p"
  shows "case fade_to cfg io_ok p target duration steps_opt of
           Inl e \<Rightarrow> duration * 600 < 1
         | Inr p' \<Rightarrow> current_brightness_pdc p' = target
                    \<and> (current_brightness_pdc p \<noteq> target \<longrightarrow>
                         channel_pdc p' \<noteq> [] \<and> last (channel_pdc p') = target)"
proof (cases "current_brightness_pdc p = target")
  case True
  with t show ?thesis by (simp add: fade_to_def Let_def)
next
  case False
  have tt: "max 0 (min target (max_brightness_pdc p)) = target" using t by simp
  define m where "m = (case steps_opt of None \<Rightarrow> fade_steps cfg | Some n \<Rightarrow> n)"
  define m' where "m' = py_int (duration / ((1000 / 60) / 1000 / 10))"
  have m: "0 < m" using n by (simp add: m_def)
  have unf: "fade_to cfg io_ok p target duration steps_opt =
     (if duration / of_int m < (1000 / 60) / 1000 / 10
      then if m' = 0 then Inl ZeroDivisionError
           else Inr (fade_to_loop cfg io_ok (current_brightness_pdc p) target m' p)
      else Inr (fade_to_loop cfg io_ok (current_brightness_pdc p) target m p))"
    using False m unfolding fade_to_def Let_def tt m_def [symmetric] m'_def [symmetric]
    by simp
  have m'0: "0 \<le> m'" unfolding m'_def using d by (rule short_duration(1))
  show ?thesis
  proof (cases "duration / of_int m < (1000 / 60) / 1000 / 10")
    case False
    then show ?thesis unfolding unf
      using fade_to_loop_reaches [where io_ok = io_ok and n = m and c = p
                                    and target = target and cfg = cfg]
            ok m \<open>current_brightness_pdc p \<noteq> target\<close> t
      by simp
  next
    case fast: True
    show ?thesis
    proof (cases "m' = 0")
      case True
      then have "duration * 600 < 1" unfolding m'_def using d short_duration(2) by blast
      then show ?thesis unfolding unf using fast True by simp
    next
      case nz: False
      with m'0 have pos: "0 < m'" by linarith
      show ?thesis unfolding unf
        using fade_to_loop_reaches [where io_ok = io_ok and n = m' and c = p
                                      and target = target and cfg = cfg]
              ok pos False t fast nz
        by simp
    qed
  qed
qed


lemma fade_step_write_failed:
  "\<not> (brightness_path_found c \<and> io_ok step) \<Longrightarrow>
   fade_step cfg io_ok s t n step c = c"
  by (auto simp add: fade_step_def write_brightness_def Let_def)

lemma fade_step_write_ok:
  assumes "brightness_path_found c" "io_ok step"
  shows "channel (fade_step cfg io_ok s t n step c)
           = channel c @ [max (min_brightness cfg)
                            (min (max_brightness cfg) (new_brightness cfg s t n step))]
       \<and> current_brightness (display_state (fade_step cfg io_ok s t n step c))
           = new_brightness cfg s t n step"
  using assms by (simp add: fade_step_def write_brightness_def Let_def)

lemma set_brightness_tracks:
  "snd (set_brightness False c v) = c
   \<and> channel_pdc (snd (set_brightness True c v)) \<noteq> []
   \<and> current_brightness_pdc (snd (set_brightness True c v))
       = last (channel_pdc (snd (set_brightness True c v)))"
  by (simp add: set_brightness_def Let_def)

lemma fade_to_short_duration_raises:
  "fade_to two_step_config (\<lambda>_. True) fresh_controller_pdc 255 (1 / 1000) None
     = Inl ZeroDivisionError"
  by (simp add: fade_defs fade_scenario_defs Let_def)


text \<open>
  C6, as stated, fails for \<open>fade_to\<close>. With every write succeeding, the positive
  configured step count 2, the target 255 in \<open>[0, 255]\<close> and the duration -1, the
  recomputed step count is negative, the loop is empty and \<open>fade_to\<close> returns without
  a write: the tracked brightness is still 0, not 255.
\<close>

theorem fade_to_negative_duration_misses_target:
  "writes_succeed 0
   \<and> 0 < fade_steps two_step_config
   \<and> (0::int) \<le> 255 \<and> 255 \<le> max_brightness_pdc fresh_controller_pdc
   \<and> fade_to two_step_config writes_succeed fresh_controller_pdc 255 (- 1) None
       = Inr fresh_controller_pdc
   \<and> current_brightness_pdc fresh_controller_pdc = 0
   \<and> channel_pdc fresh_controller_pdc = []"
  by (simp add: fade_defs fade_scenario_defs writes_succeed_def Let_def)

text \<open>
  C6, amended. When every write goes through, a fade that runs to its end leaves the
  tracked brightness at exactly the target, and the target is the newest value in the
  brightness file whenever the fade had anything to do. For \<open>_fade_worker\<close>: any
  positive \<open>fade_steps\<close>, any easing, any target in \<open>[min_brightness, max_brightness]\<close>
  and any duration; the call always returns. For \<open>fade_to\<close>: any positive step count
  (given or configured), any easing, any target in \<open>[0, max_brightness]\<close> and any
  duration that is not negative; the call either returns with the target reached or
  raises ZeroDivisionError, and it raises only for durations under 1/600 s.
\<close>

theorem fade_ends_at_target:
  assumes "\<forall>k. io_ok k"
  shows "(0 < fade_steps cfg \<and> brightness_path_found c
          \<and> min_brightness cfg \<le> target \<and> target \<le> max_brightness cfg \<longrightarrow>
            (\<exists>c'. fade_worker cfg io_ok c target = Inr c'
                 \<and> current_brightness (display_state c') = target
                 \<and> (current_brightness (display_state c) \<noteq> target \<longrightarrow>
                      channel c' \<noteq> [] \<and> last (channel c') = target)))
       \<and> (0 < (case steps_opt of None \<Rightarrow> fade_steps cfg | Some n \<Rightarrow> n)
          \<and> 0 \<le> duration \<and> 0 \<le> target \<and> target \<le> max_brightness_pdc p \<longrightarrow>
            (case fade_to cfg io_ok p target duration steps_opt of
               Inl e \<Rightarrow> duration * 600 < 1
             | Inr p' \<Rightarrow> current_brightness_pdc p' = target
                        \<and> (current_brightness_pdc p \<noteq> target \<longrightarrow>
                             channel_pdc p' \<noteq> [] \<and> last (channel_pdc p') = target)))"
proof (intro conjI impI)
  assume a: "0 < fade_steps cfg \<and> brightness_path_found c
          \<and> min_brightness cfg \<le> target \<and> target \<le> max_brightness cfg"
  then have cl: "max (min_brightness cfg) (min (max_brightness cfg) target) = target" by simp
  from a assms
    fade_worker_reaches [where io_ok = io_ok and cfg = cfg and c = c and target = target]
  show "\<exists>c'. fade_worker cfg io_ok c target = Inr c'
                 \<and> current_brightness (display_state c') = target
                 \<and> (current_brightness (display_state c) \<noteq> target \<longrightarrow>
                      channel c' \<noteq> [] \<and> last (channel c') = target)"
    unfolding cl by simp
next
  assume "0 < (case steps_opt of None \<Rightarrow> fade_steps cfg | Some n \<Rightarrow> n)
          \<and> 0 \<le> duration \<and> 0 \<le> target \<and> target \<le> max_brightness_pdc p"
  with assms show "case fade_to cfg io_ok p target duration steps_opt of
               Inl e \<Rightarrow> duration * 600 < 1
             | Inr p' \<Rightarrow> current_brightness_pdc p' = target
                        \<and> (current_brightness_pdc p \<noteq> target \<longrightarrow>
                             channel_pdc p' \<noteq> [] \<and> last (channel_pdc p') = target)"
    using fade_to_reaches [where io_ok = io_ok and cfg = cfg and p = p and target = target
                             and duration = duration and steps_opt = steps_opt]
    by simp
qed


theorem fade_ends_at_target_witness:
  "(\<forall>k::nat. (\<lambda>_. True) k)
   \<and> 0 < fade_steps two_step_config \<and> brightness_path_found fresh_controller
   \<and> min_brightness two_step_config \<le> 255 \<and> 255 \<le> max_brightness two_step_config
   \<and> (\<exists>c'. fade_worker two_step_config (\<lambda>_. True) fresh_controller 255 = Inr c'
          \<and> channel c' = [0, 127, 255]
          \<and> current_brightness (display_state c') = 255)
   \<and> (0::real) \<le> 1 \<and> 255 \<le> max_brightness_pdc fresh_controller_pdc
   \<and> (\<exists>p'. fade_to two_step_config (\<lambda>_. True) fresh_controller_pdc 255 1 None = Inr p'
          \<and> channel_pdc p' = [128, 255]
          \<and> current_brightness_pdc p' = 255)"
  using fade_ends_at_target [of "\<lambda>_. True" two_step_config fresh_controller 255 None 1
                                fresh_controller_pdc]
  by (simp add: fade_defs fade_scenario_defs round_double_zero round_double_values
                Let_def upt3)


text \<open>
  C7 on the code of \<open>_old/display.py\<close>. With \<open>min_brightness = 20\<close> and a controller
  tracking brightness 0, step 0 of a fade to 255 asks for 0: the write goes through and
  puts the clamped value 20 into the file, while \<open>current_brightness\<close> is set to 0.
  Likewise a fade to 300 with \<open>max_brightness = 255\<close> ends with 255 in the file and
  \<open>current_brightness = 300\<close>. The tracked value is the requested one, not the one
  written.
\<close>

theorem tracked_brightness_not_written_value:
  "channel (fade_step dim_floor_config (\<lambda>_. True) 0 255 2 0 fresh_controller) = [20]
   \<and> current_brightness
       (display_state (fade_step dim_floor_config (\<lambda>_. True) 0 255 2 0 fresh_controller)) = 0
   \<and> (\<exists>c'. fade_worker two_step_config (\<lambda>_. True) fresh_controller 300 = Inr c'
          \<and> channel c' = [0, 150, 255]
          \<and> current_brightness (display_state c') = 300)"
  by (simp add: fade_defs fade_scenario_defs round_double_zero round_double_values
                Let_def upt3)


end
